theory Spec2Isabelle
  imports Complex_Main "HOL-Library.Multiset"
begin

section \<open>Python values, exceptions and display widgets\<close>

text \<open>
  Both dashboards are Streamlit scripts. The embedding keeps every function of the
  scripts as a HOL function of the same name. Values that arrive from outside the
  scripts (the HTTP response, the SQL engine behind \<^verbatim>\<open>pd.read_sql_query\<close>, the date
  parser behind \<^verbatim>\<open>pd.to_datetime\<close>, the values returned by the input widgets) are
  parameters of the functions that use them. An exception is the \<open>Inl\<close> branch of a
  sum; the state of the database file is passed explicitly.

  A decoded JSON value is a \<open>json\<close>; \<open>JNull\<close> is Python's \<^verbatim>\<open>None\<close> and \<open>JNaN\<close> the
  float \<^verbatim>\<open>nan\<close> (which \<^verbatim>\<open>json.loads\<close> accepts), the two values that pandas counts
  as missing. A dictionary is an association list read with \<open>map_of\<close>. Strings are
  lists of \<open>char\<close>, one element standing for one Python character.
\<close>

datatype json =
    JNull
  | JNaN
  | JBool bool
  | JNum rat
  | JStr string
  | JArr "json list"
  | JObj "(string \<times> json) list"

datatype exn =
    AttributeError
  | TypeError
  | ValueError
  | KeyError string
  | LibraryError string

text \<open>
  An f-string is kept as the list of its parts, so that no rendering of numbers or of
  exceptions as text has to be invented.
\<close>

datatype part = Lit string | ExnPart exn | NatPart nat | SymPart "string option"

record frame =
  columns :: "string list"
  rows :: "json list list"

datatype widget =
    Success "part list"
  | Error "part list"
  | Warning string
  | Header string
  | Dataframe frame
  | Table frame
  | BarChart frame

definition sum_bind :: "exn + 'a \<Rightarrow> ('a \<Rightarrow> exn + 'b) \<Rightarrow> exn + 'b" where
  "sum_bind m f = (case m of Inl e \<Rightarrow> Inl e | Inr x \<Rightarrow> f x)"

text \<open>\<^verbatim>\<open>x.get(k, default)\<close>: only a dictionary has the method.\<close>

definition py_get :: "json \<Rightarrow> string \<Rightarrow> json \<Rightarrow> exn + json" where
  "py_get x k dflt =
     (case x of
        JObj d \<Rightarrow> Inr (case map_of d k of None \<Rightarrow> dflt | Some v \<Rightarrow> v)
      | _ \<Rightarrow> Inl AttributeError)"

text \<open>
  Iterating a value: a list gives its elements, a string its characters, a dictionary
  its keys; anything else raises \<^verbatim>\<open>TypeError\<close>.
\<close>

definition py_iter :: "json \<Rightarrow> exn + json list" where
  "py_iter x =
     (case x of
        JArr xs \<Rightarrow> Inr xs
      | JStr s \<Rightarrow> Inr (map (\<lambda>c. JStr [c]) s)
      | JObj d \<Rightarrow> Inr (map (\<lambda>kv. JStr (fst kv)) d)
      | _ \<Rightarrow> Inl TypeError)"

fun join_strs :: "string \<Rightarrow> string list \<Rightarrow> string" where
  "join_strs sep [] = []"
| "join_strs sep [x] = x"
| "join_strs sep (x # y # ys) = x @ sep @ join_strs sep (y # ys)"

fun str_items :: "json list \<Rightarrow> exn + string list" where
  "str_items [] = Inr []"
| "str_items (JStr s # xs) = sum_bind (str_items xs) (\<lambda>ss. Inr (s # ss))"
| "str_items (_ # xs) = Inl TypeError"

text \<open>\<^verbatim>\<open>sep.join(x)\<close>: every item of the iterable must be a string.\<close>

definition py_join :: "string \<Rightarrow> json \<Rightarrow> exn + json" where
  "py_join sep x =
     sum_bind (py_iter x) (\<lambda>xs. sum_bind (str_items xs) (\<lambda>ss. Inr (JStr (join_strs sep ss))))"

text \<open>
  \<^verbatim>\<open>x[:n]\<close>: strings and lists are sliced; the other values raise (a dictionary
  raises \<^verbatim>\<open>TypeError\<close> up to Python 3.11 and \<^verbatim>\<open>KeyError\<close> afterwards, which no
  handler of the script tells apart).
\<close>

definition py_slice_to :: "nat \<Rightarrow> json \<Rightarrow> exn + json" where
  "py_slice_to n x =
     (case x of
        JStr s \<Rightarrow> Inr (JStr (take n s))
      | JArr xs \<Rightarrow> Inr (JArr (take n xs))
      | _ \<Rightarrow> Inl TypeError)"

text \<open>Truth value of a Python object, as tested by \<^verbatim>\<open>if books:\<close>.\<close>

definition truthy :: "json \<Rightarrow> bool" where
  "truthy x =
     (case x of
        JNull \<Rightarrow> False
      | JNaN \<Rightarrow> True
      | JBool b \<Rightarrow> b
      | JNum r \<Rightarrow> r \<noteq> 0
      | JStr s \<Rightarrow> s \<noteq> []
      | JArr xs \<Rightarrow> xs \<noteq> []
      | JObj d \<Rightarrow> d \<noteq> [])"

section \<open>BookScape: fetching and flattening\<close>

definition API_URL :: string where
  "API_URL = ''https://www.googleapis.com/books/v1/volumes''"

definition DB_FILE :: string where
  "DB_FILE = ''books.db''"

text \<open>
  What \<^verbatim>\<open>requests.get\<close> returns: the status code and the outcome of
  \<^verbatim>\<open>response.json()\<close>, which raises on a body that is not JSON. The request itself
  may raise (no network, timeout), so the HTTP client is a function into a sum.
\<close>

record response =
  status_code :: int
  json_of :: "exn + json"

type_synonym http_client = "string \<Rightarrow> (string \<times> json) list \<Rightarrow> exn + response"

definition fetch_books :: "http_client \<Rightarrow> string \<Rightarrow> nat \<Rightarrow> exn + json" where
  "fetch_books http_get query max_results =
     (let params = [(''q'', JStr query), (''maxResults'', JNum (of_nat max_results))] in
      sum_bind (http_get API_URL params) (\<lambda>response.
        if status_code response = 200
        then sum_bind (json_of response) (\<lambda>body. py_get body ''items'' (JArr []))
        else Inr (JArr [])))"

text \<open>The body of the loop of \<^verbatim>\<open>transform_data\<close>: one book, one dictionary of 21 entries.\<close>

definition flatten_book :: "json \<Rightarrow> exn + (string \<times> json) list" where
  "flatten_book book =
     sum_bind (py_get book ''volumeInfo'' (JObj [])) (\<lambda>volume_info.
     sum_bind (py_get book ''saleInfo'' (JObj [])) (\<lambda>sale_info.
     sum_bind (py_get sale_info ''listPrice'' (JObj [])) (\<lambda>list_price.
     sum_bind (py_get sale_info ''retailPrice'' (JObj [])) (\<lambda>retail_price.
     sum_bind (py_get book ''id'' JNull) (\<lambda>book_id.
     sum_bind (py_get volume_info ''title'' JNull) (\<lambda>title.
     sum_bind (py_get volume_info ''subtitle'' JNull) (\<lambda>subtitle.
     sum_bind (sum_bind (py_get volume_info ''authors'' (JArr [])) (py_join '', '')) (\<lambda>authors.
     sum_bind (py_get volume_info ''description'' JNull) (\<lambda>description.
     sum_bind (sum_bind (py_get volume_info ''categories'' (JArr [])) (py_join '', '')) (\<lambda>categories.
     sum_bind (py_get volume_info ''pageCount'' JNull) (\<lambda>page_count.
     sum_bind (py_get volume_info ''language'' JNull) (\<lambda>language.
     sum_bind (sum_bind (py_get volume_info ''imageLinks'' (JObj []))
                 (\<lambda>links. py_get links ''thumbnail'' JNull)) (\<lambda>image_link.
     sum_bind (py_get volume_info ''averageRating'' JNull) (\<lambda>average_rating.
     sum_bind (py_get volume_info ''ratingsCount'' JNull) (\<lambda>ratings_count.
     sum_bind (py_get volume_info ''publisher'' JNull) (\<lambda>publisher.
     sum_bind (sum_bind (py_get volume_info ''publishedDate'' (JStr [])) (py_slice_to 4))
       (\<lambda>published_year.
     sum_bind (py_get sale_info ''isEbook'' JNull) (\<lambda>is_ebook.
     sum_bind (py_get sale_info ''saleability'' JNull) (\<lambda>saleability.
     sum_bind (py_get list_price ''amount'' JNull) (\<lambda>amount_list_price.
     sum_bind (py_get list_price ''currencyCode'' JNull) (\<lambda>currency_code_list_price.
     sum_bind (py_get retail_price ''amount'' JNull) (\<lambda>amount_retail_price.
     sum_bind (py_get retail_price ''currencyCode'' JNull) (\<lambda>currency_code_retail_price.
     sum_bind (py_get sale_info ''buyLink'' JNull) (\<lambda>buy_link.
     sum_bind (py_get sale_info ''country'' JNull) (\<lambda>country.
       Inr [(''book_id'', book_id),
            (''title'', title),
            (''subtitle'', subtitle),
            (''authors'', authors),
            (''description'', description),
            (''categories'', categories),
            (''page_count'', page_count),
            (''language'', language),
            (''image_link'', image_link),
            (''average_rating'', average_rating),
            (''ratings_count'', ratings_count),
            (''publisher'', publisher),
            (''published_year'', published_year),
            (''is_ebook'', is_ebook),
            (''saleability'', saleability),
            (''amount_list_price'', amount_list_price),
            (''currency_code_list_price'', currency_code_list_price),
            (''amount_retail_price'', amount_retail_price),
            (''currency_code_retail_price'', currency_code_retail_price),
            (''buy_link'', buy_link),
            (''country'', country)])))))))))))))))))))))))))"

fun flatten_books :: "json list \<Rightarrow> exn + (string \<times> json) list list" where
  "flatten_books [] = Inr []"
| "flatten_books (book # books) =
     sum_bind (flatten_book book) (\<lambda>d.
     sum_bind (flatten_books books) (\<lambda>data. Inr (d # data)))"

text \<open>
  \<^verbatim>\<open>pd.DataFrame(data)\<close> for a list of dictionaries: the columns are the keys in order
  of first appearance, and a key that a dictionary lacks gives a missing cell.
\<close>

fun first_seen :: "'a list \<Rightarrow> 'a list \<Rightarrow> 'a list" where
  "first_seen seen [] = seen"
| "first_seen seen (x # xs) = first_seen (if x \<in> set seen then seen else seen @ [x]) xs"

definition DataFrame :: "(string \<times> json) list list \<Rightarrow> frame" where
  "DataFrame data =
     (let cols = first_seen [] (concat (map (map fst) data)) in
      \<lparr>columns = cols,
       rows = map (\<lambda>d. map (\<lambda>c. case map_of d c of None \<Rightarrow> JNaN | Some v \<Rightarrow> v) cols) data\<rparr>)"

definition isna :: "json \<Rightarrow> bool" where
  "isna v = (v = JNull \<or> v = JNaN)"

text \<open>\<^verbatim>\<open>df.dropna()\<close>: a row stays when none of its cells is missing.\<close>

definition dropna :: "frame \<Rightarrow> frame" where
  "dropna df = df\<lparr>rows := filter (\<lambda>r. \<not> list_ex isna r) (rows df)\<rparr>"

definition transform_data :: "json \<Rightarrow> exn + frame" where
  "transform_data books =
     sum_bind (py_iter books) (\<lambda>bs.
     sum_bind (flatten_books bs) (\<lambda>data. Inr (dropna (DataFrame data))))"

section \<open>BookScape: the database file\<close>

text \<open>
  The state that outlives a call is the content of \<^verbatim>\<open>books.db\<close>: a map from table
  names to tables. Beside it the state records which connections are open, and the
  statements handed to the SQL engine so far, in order; the script reads neither, they
  are there to state what a call did.

  The SQL engine itself is not part of the repository: it is a parameter, a function
  from the statement text and the tables to a result (or an exception) and the tables
  afterwards.
\<close>

record world =
  tables :: "string \<rightharpoonup> frame"
  open_conns :: "nat list"
  next_conn :: nat
  sql_log :: "string list"

type_synonym engine = "string \<Rightarrow> (string \<rightharpoonup> frame) \<Rightarrow> (exn + frame) \<times> (string \<rightharpoonup> frame)"

text \<open>\<^verbatim>\<open>sqlite3.connect(DB_FILE)\<close> and \<^verbatim>\<open>conn.close()\<close>.\<close>

definition connect :: "world \<Rightarrow> nat \<times> world" where
  "connect w =
     (next_conn w,
      w\<lparr>open_conns := next_conn w # open_conns w, next_conn := Suc (next_conn w)\<rparr>)"

definition close :: "nat \<Rightarrow> world \<Rightarrow> world" where
  "close conn w = w\<lparr>open_conns := removeAll conn (open_conns w)\<rparr>"

text \<open>
  \<^verbatim>\<open>df.to_sql(name, conn, if_exists=..., index=False)\<close> in its three modes, for a frame
  whose cells SQLite can store: the table is created when it is absent; when it is
  there, \<^verbatim>\<open>fail\<close> raises, \<^verbatim>\<open>replace\<close> drops it and stores the frame, \<^verbatim>\<open>append\<close> adds
  the rows of the frame to it.
\<close>

datatype if_exists = IfFail | IfReplace | IfAppend

definition to_sql :: "frame \<Rightarrow> string \<Rightarrow> if_exists \<Rightarrow> world \<Rightarrow> (exn + unit) \<times> world" where
  "to_sql df name mode w =
     (case tables w name of
        None \<Rightarrow> (Inr (), w\<lparr>tables := (tables w)(name \<mapsto> df)\<rparr>)
      | Some old \<Rightarrow>
          (case mode of
             IfFail \<Rightarrow> (Inl ValueError, w)
           | IfReplace \<Rightarrow> (Inr (), w\<lparr>tables := (tables w)(name \<mapsto> df)\<rparr>)
           | IfAppend \<Rightarrow>
               if columns old = columns df
               then (Inr (), w\<lparr>tables := (tables w)(name \<mapsto> old\<lparr>rows := rows old @ rows df\<rparr>)\<rparr>)
               else (Inl (LibraryError ''table books has no such column''), w)))"

definition save_to_database :: "frame \<Rightarrow> world \<Rightarrow> (exn + unit) \<times> world" where
  "save_to_database df w =
     (let (conn, w1) = connect w in
      case to_sql df ''books'' IfReplace w1 of
        (Inl e, w2) \<Rightarrow> (Inl e, w2)
      | (Inr u, w2) \<Rightarrow> (Inr (), close conn w2))"

text \<open>\<^verbatim>\<open>pd.read_sql_query(query, conn)\<close>: one statement goes to the engine.\<close>

definition read_sql_query :: "engine \<Rightarrow> string \<Rightarrow> world \<Rightarrow> (exn + frame) \<times> world" where
  "read_sql_query eng query w =
     (let (r, t) = eng query (tables w) in
      (r, w\<lparr>tables := t, sql_log := sql_log w @ [query]\<rparr>))"

definition query_database :: "engine \<Rightarrow> string \<Rightarrow> world \<Rightarrow> (exn + frame) \<times> world" where
  "query_database eng query w =
     (let (conn, w1) = connect w in
      case read_sql_query eng query w1 of
        (Inl e, w2) \<Rightarrow> (Inl e, w2)
      | (Inr result, w2) \<Rightarrow> (Inr result, close conn w2))"

section \<open>BookScape: the handlers of the three buttons\<close>

text \<open>
  The Search button. Nothing here is inside a \<^verbatim>\<open>try\<close>: an exception ends the run of
  the script, which is the \<open>Inl\<close> result.
\<close>

definition search_handler :: "http_client \<Rightarrow> string \<Rightarrow> world \<Rightarrow> (exn + widget list) \<times> world" where
  "search_handler http_get query w =
     (case fetch_books http_get query 40 of
        Inl e \<Rightarrow> (Inl e, w)
      | Inr books \<Rightarrow>
          if truthy books
          then (case transform_data books of
                  Inl e \<Rightarrow> (Inl e, w)
                | Inr df \<Rightarrow>
                    (case save_to_database df w of
                       (Inl e, w') \<Rightarrow> (Inl e, w')
                     | (Inr u, w') \<Rightarrow>
                         (Inr [Success [Lit ''Fetched and saved '', NatPart (length (rows df)),
                                        Lit '' books to the database.'']], w')))
          else (Inr [Error [Lit ''No books found.'']], w))"

text \<open>The Run Query button: the text of the text area goes to the engine as it is.\<close>

definition run_query_handler :: "engine \<Rightarrow> string \<Rightarrow> world \<Rightarrow> widget list \<times> world" where
  "run_query_handler eng sql_query w =
     (case query_database eng sql_query w of
        (Inl e, w') \<Rightarrow> ([Error [Lit ''Error running query: '', ExnPart e]], w')
      | (Inr query_result, w') \<Rightarrow> ([Header ''Query Results'', Dataframe query_result], w'))"

text \<open>
  The Run Analysis button. \<open>analysis_query\<close> is the statement that the branch of the
  chosen analysis passes to \<^verbatim>\<open>query_database\<close>, with the line breaks and the
  indentation of the source; \<open>keyword\<close> is the value of the text box that the sixteenth
  branch reads.
\<close>

definition analysis_options :: "string list" where
  "analysis_options =
    [''Availability of eBooks vs Physical Books'',
     ''Top 5 Most Expensive Books'',
     ''Books with High Ratings'',
     ''Books by Year and Publisher'',
     ''Find the Publisher with the Most Books Published'',
     ''Identify the Publisher with the Highest Average Rating'',
     ''Find Books Published After 2010 with at Least 500 Pages'',
     ''List Books with Discounts Greater than 20%'',
     ''Find the Average Page Count for eBooks vs Physical Books'',
     ''Find the Top 3 Authors with the Most Books'',
     ''List Publishers with More than 10 Books'',
     ''Find the Average Page Count for Each Category'',
     ''Retrieve Books with More than 3 Authors'',
     ''Books with Ratings Count Greater Than the Average'',
     ''Books with the Same Author Published in the Same Year'',
     ''Books with a Specific Keyword in the Title'',
     ''Year with the Highest Average Book Price'',
     ''Count Authors Who Published 3 Consecutive Years'',
     ''Authors Published in Same Year but Different Publishers'']"

definition analysis_query :: "string \<Rightarrow> string \<Rightarrow> string option" where
  "analysis_query analysis_choice keyword =
     (if analysis_choice = ''Availability of eBooks vs Physical Books'' then Some (
        ''\<newline>'' @
        ''                SELECT is_ebook, COUNT('' @
        ''*) as count\<newline>'' @
        ''                FROM books\<newline>'' @
        ''                GROUP BY is_ebook\<newline>'' @
        ''            '')
     else if analysis_choice = ''Top 5 Most Expensive Books'' then Some (
        ''\<newline>'' @
        ''                SELECT title, amount_retail_price, currency_code_retail_price\<newline>'' @
        ''                FROM books\<newline>'' @
        ''                ORDER BY amount_retail_price DESC\<newline>'' @
        ''                LIMIT 5\<newline>'' @
        ''            '')
     else if analysis_choice = ''Books with High Ratings'' then Some (
        ''\<newline>'' @
        ''                SELECT title, average_rating, ratings_count\<newline>'' @
        ''                FROM books\<newline>'' @
        ''                WHERE average_rating > 4.5\<newline>'' @
        ''                ORDER BY average_rating DESC\<newline>'' @
        ''            '')
     else if analysis_choice = ''Books by Year and Publisher'' then Some (
        ''\<newline>'' @
        ''                SELECT published_year, publisher, COUNT('' @
        ''*) as book_count\<newline>'' @
        ''                FROM books\<newline>'' @
        ''                GROUP BY published_year, publisher\<newline>'' @
        ''                ORDER BY published_year DESC\<newline>'' @
        ''            '')
     else if analysis_choice = ''Find the Publisher with the Most Books Published'' then Some (
        ''\<newline>'' @
        ''                SELECT publisher, COUNT('' @
        ''*) as book_count\<newline>'' @
        ''                FROM books\<newline>'' @
        ''                GROUP BY publisher\<newline>'' @
        ''                ORDER BY book_count DESC\<newline>'' @
        ''                LIMIT 1\<newline>'' @
        ''            '')
     else if analysis_choice = ''Identify the Publisher with the Highest Average Rating'' then Some (
        ''\<newline>'' @
        ''                SELECT publisher, AVG(average_rating) as avg_rating, COUNT('' @
        ''*) as book_count\<newline>'' @
        ''                FROM books\<newline>'' @
        ''                GROUP BY publisher\<newline>'' @
        ''                HAVING COUNT('' @
        ''*) > 10\<newline>'' @
        ''                ORDER BY avg_rating DESC\<newline>'' @
        ''                LIMIT 1\<newline>'' @
        ''            '')
     else if analysis_choice = ''Find Books Published After 2010 with at Least 500 Pages'' then Some (
        ''\<newline>'' @
        ''                SELECT title, authors, page_count, published_year\<newline>'' @
        ''                FROM books\<newline>'' @
        ''                WHERE published_year > '2010' AND page_count >= 500\<newline>'' @
        ''            '')
     else if analysis_choice = ''List Books with Discounts Greater than 20%'' then Some (
        ''\<newline>'' @
        ''                SELECT title, amount_list_price, amount_retail_price, \<newline>'' @
        ''                       ((amount_list_price - amount_retail_price) / amount_list_price) * 100 AS discount_percentage\<newline>'' @
        ''                FROM books\<newline>'' @
        ''                WHERE amount_list_price > 0 AND \<newline>'' @
        ''                      (amount_list_price - amount_retail_price) / amount_list_price >= 0.2\<newline>'' @
        ''            '')
     else if analysis_choice = ''Find the Average Page Count for eBooks vs Physical Books'' then Some (
        ''\<newline>'' @
        ''                SELECT is_ebook, AVG(page_count) as avg_page_count\<newline>'' @
        ''                FROM books\<newline>'' @
        ''                GROUP BY is_ebook\<newline>'' @
        ''            '')
     else if analysis_choice = ''Find the Top 3 Authors with the Most Books'' then Some (
        ''\<newline>'' @
        ''                SELECT authors, COUNT('' @
        ''*) as book_count\<newline>'' @
        ''                FROM books\<newline>'' @
        ''                GROUP BY authors\<newline>'' @
        ''                ORDER BY book_count DESC\<newline>'' @
        ''                LIMIT 3\<newline>'' @
        ''            '')
     else if analysis_choice = ''List Publishers with More than 10 Books'' then Some (
        ''\<newline>'' @
        ''                SELECT publisher, COUNT('' @
        ''*) as book_count\<newline>'' @
        ''                FROM books\<newline>'' @
        ''                GROUP BY publisher\<newline>'' @
        ''                HAVING COUNT('' @
        ''*) > 10\<newline>'' @
        ''                ORDER BY book_count DESC\<newline>'' @
        ''            '')
     else if analysis_choice = ''Find the Average Page Count for Each Category'' then Some (
        ''\<newline>'' @
        ''                SELECT categories, AVG(page_count) as avg_page_count\<newline>'' @
        ''                FROM books\<newline>'' @
        ''                GROUP BY categories\<newline>'' @
        ''                ORDER BY avg_page_count DESC\<newline>'' @
        ''            '')
     else if analysis_choice = ''Retrieve Books with More than 3 Authors'' then Some (
        ''\<newline>'' @
        ''                SELECT title, authors\<newline>'' @
        ''                FROM books\<newline>'' @
        ''                WHERE LENGTH(authors) - LENGTH(REPLACE(authors, ',', '' @
        [CHR 0x27] @
        [CHR 0x27] @
        '')) + 1 > 3\<newline>'' @
        ''            '')
     else if analysis_choice = ''Books with Ratings Count Greater Than the Average'' then Some (
        ''\<newline>'' @
        ''                SELECT title, average_rating, ratings_count\<newline>'' @
        ''                FROM books\<newline>'' @
        ''                WHERE ratings_count > (SELECT AVG(ratings_count) FROM books)\<newline>'' @
        ''                ORDER BY ratings_count DESC\<newline>'' @
        ''            '')
     else if analysis_choice = ''Books with the Same Author Published in the Same Year'' then Some (
        ''\<newline>'' @
        ''                SELECT authors, published_year, COUNT('' @
        ''*) as book_count\<newline>'' @
        ''                FROM books\<newline>'' @
        ''                GROUP BY authors, published_year\<newline>'' @
        ''                HAVING COUNT('' @
        ''*) > 1\<newline>'' @
        ''            '')
     else if analysis_choice = ''Books with a Specific Keyword in the Title'' then Some (
        ''\<newline>'' @
        ''                SELECT title, authors, published_year\<newline>'' @
        ''                FROM books\<newline>'' @
        ''                WHERE title LIKE '%'' @ keyword @
        ''%'' @
        [CHR 0x27] @
        ''\<newline>'' @
        ''            '')
     else if analysis_choice = ''Year with the Highest Average Book Price'' then Some (
        ''\<newline>'' @
        ''                SELECT published_year, AVG(amount_retail_price) as avg_price\<newline>'' @
        ''                FROM books\<newline>'' @
        ''                GROUP BY published_year\<newline>'' @
        ''                ORDER BY avg_price DESC\<newline>'' @
        ''                LIMIT 1\<newline>'' @
        ''            '')
     else if analysis_choice = ''Count Authors Who Published 3 Consecutive Years'' then Some (
        ''\<newline>'' @
        ''                SELECT authors, COUNT(DISTINCT published_year) as consecutive_years\<newline>'' @
        ''                FROM books\<newline>'' @
        ''                GROUP BY authors\<newline>'' @
        ''                HAVING consecutive_years >= 3\<newline>'' @
        ''            '')
     else if analysis_choice = ''Authors Published in Same Year but Different Publishers'' then Some (
        ''\<newline>'' @
        ''                SELECT authors, published_year, COUNT(DISTINCT publisher) as publisher_count\<newline>'' @
        ''                FROM books\<newline>'' @
        ''                GROUP BY authors, published_year\<newline>'' @
        ''                HAVING publisher_count > 1\<newline>'' @
        ''            '')
     else None)"

text \<open>\<^verbatim>\<open>result.set_index(col)\<close> raises \<^verbatim>\<open>KeyError\<close> when the column is missing.\<close>

definition set_index :: "string \<Rightarrow> frame \<Rightarrow> exn + frame" where
  "set_index col df =
     (if col \<in> set (columns df)
      then Inr \<lparr>columns = col # removeAll col (columns df), rows = rows df\<rparr>
      else Inl (KeyError col))"

text \<open>
  How the branch shows its result: two analyses draw a bar chart over the
  \<^verbatim>\<open>is_ebook\<close> index, the others show a table.
\<close>

definition analysis_render :: "string \<Rightarrow> frame \<Rightarrow> exn + widget" where
  "analysis_render analysis_choice result =
     (if analysis_choice = ''Availability of eBooks vs Physical Books''
         \<or> analysis_choice = ''Find the Average Page Count for eBooks vs Physical Books''
      then sum_bind (set_index ''is_ebook'' result) (\<lambda>indexed. Inr (BarChart indexed))
      else Inr (Table result))"

definition run_analysis :: "engine \<Rightarrow> string \<Rightarrow> string \<Rightarrow> world \<Rightarrow> widget list \<times> world" where
  "run_analysis eng analysis_choice keyword w =
     (case analysis_query analysis_choice keyword of
        None \<Rightarrow> ([], w)
      | Some query \<Rightarrow>
          (case query_database eng query w of
             (Inl e, w') \<Rightarrow> ([Error [Lit ''Error running analysis: '', ExnPart e]], w')
           | (Inr result, w') \<Rightarrow>
               (case analysis_render analysis_choice result of
                  Inl e \<Rightarrow> ([Error [Lit ''Error running analysis: '', ExnPart e]], w')
                | Inr shown \<Rightarrow> ([shown], w'))))"

section \<open>Stock dashboard: loading the upload\<close>

text \<open>
  A frame of the stock dashboard is the list of its rows, in order. A row has the three
  columns the script reads by name and, in \<open>extra\<close>, every other column by name. An
  empty cell of \<^verbatim>\<open>Date\<close> or \<^verbatim>\<open>Symbol\<close> is \<open>None\<close> (pandas' \<^verbatim>\<open>NaT\<close> and \<^verbatim>\<open>NaN\<close>);
  \<^verbatim>\<open>Close\<close> holds a finite number in every row. A timestamp is a number of
  nanoseconds, a calendar date a number of days.

  Computed columns hold float64 values. Their arithmetic is exact here (rationals,
  the two infinities and \<^verbatim>\<open>NaN\<close>): rounding is not part of the model.
\<close>

datatype fnum = Fin rat | NaN | PInf | NInf

datatype cell = Txt string | Flt fnum

record 'd stock_row =
  Date :: 'd
  Symbol :: "string option"
  Close :: rat
  extra :: "(string \<times> cell) list"

text \<open>
  \<^verbatim>\<open>pd.to_datetime(df["Date"])\<close>: an empty cell becomes \<^verbatim>\<open>NaT\<close>, a text that the parser
  rejects raises. The parser is a parameter.
\<close>

fun to_datetime :: "(string \<Rightarrow> int option) \<Rightarrow> string option stock_row list
    \<Rightarrow> exn + int option stock_row list" where
  "to_datetime parse [] = Inr []"
| "to_datetime parse (r # rs) =
     (case (case Date r of None \<Rightarrow> Inr None
            | Some s \<Rightarrow> (case parse s of None \<Rightarrow> Inl ValueError | Some t \<Rightarrow> Inr (Some t))) of
        Inl e \<Rightarrow> Inl e
      | Inr d \<Rightarrow>
          (case to_datetime parse rs of
             Inl e \<Rightarrow> Inl e
           | Inr rs' \<Rightarrow> Inr (\<lparr>Date = d, Symbol = Symbol r, Close = Close r, extra = extra r\<rparr> # rs')))"

text \<open>
  \<^verbatim>\<open>df.drop_duplicates(subset=..., keep="last")\<close>: a row goes when a later row has the
  same key. \<^verbatim>\<open>df.duplicated(subset=...)\<close> marks a row when an earlier row has the same
  key. Both count two missing cells as equal.
\<close>

fun drop_duplicates_last :: "('a \<Rightarrow> 'k) \<Rightarrow> 'a list \<Rightarrow> 'a list" where
  "drop_duplicates_last key [] = []"
| "drop_duplicates_last key (r # rs) =
     (if key r \<in> set (map key rs) then drop_duplicates_last key rs
      else r # drop_duplicates_last key rs)"

fun duplicated_after :: "'k list \<Rightarrow> ('a \<Rightarrow> 'k) \<Rightarrow> 'a list \<Rightarrow> bool list" where
  "duplicated_after seen key [] = []"
| "duplicated_after seen key (r # rs) =
     (key r \<in> set seen) # duplicated_after (key r # seen) key rs"

definition duplicated :: "('a \<Rightarrow> 'k) \<Rightarrow> 'a list \<Rightarrow> bool list" where
  "duplicated key df = duplicated_after [] key df"

definition date_symbol :: "'d stock_row \<Rightarrow> 'd \<times> string option" where
  "date_symbol r = (Date r, Symbol r)"

text \<open>
  \<open>uploaded_file\<close> is the upload as \<^verbatim>\<open>pd.read_csv\<close> reads it, \<open>None\<close> when nothing was
  uploaded. The result is the frame and what the function displays.
\<close>

definition load_data :: "(string \<Rightarrow> int option) \<Rightarrow> string option stock_row list option
    \<Rightarrow> exn + int option stock_row list \<times> widget list" where
  "load_data parse uploaded_file =
     (case uploaded_file of
        Some csv \<Rightarrow>
          (case to_datetime parse csv of
             Inl e \<Rightarrow> Inl e
           | Inr df \<Rightarrow> Inr (drop_duplicates_last date_symbol df, []))
      | None \<Rightarrow> Inr ([], [Warning ''Please upload a CSV file to proceed.'']))"

section \<open>Stock dashboard: the analysis page\<close>




definition and_mask :: "bool list \<Rightarrow> bool list \<Rightarrow> bool list" where
  "and_mask a b = map (\<lambda>(x, y). x \<and> y) (zip a b)"



text \<open>
  \<^verbatim>\<open>start_date, end_date = st.date_input(...)\<close>: the widget returns a tuple, which has
  one element only while the user has picked the first day of the range.
\<close>

definition unpack_range :: "int list \<Rightarrow> exn + int \<times> int" where
  "unpack_range picked = (case picked of [a, b] \<Rightarrow> Inr (a, b) | _ \<Rightarrow> Inl ValueError)"









text \<open>
  \<^verbatim>\<open>df[name] = s\<close> writes the entries of \<open>s\<close> into the column, row by row, and
  \<^verbatim>\<open>df[name]\<close> reads a computed column back.
\<close>

fun set_cell :: "string \<Rightarrow> cell \<Rightarrow> (string \<times> cell) list \<Rightarrow> (string \<times> cell) list" where
  "set_cell name v [] = [(name, v)]"
| "set_cell name v ((k, x) # kvs) =
     (if k = name then (k, v) # kvs else (k, x) # set_cell name v kvs)"

definition assign :: "string \<Rightarrow> fnum list \<Rightarrow> 'd stock_row list \<Rightarrow> 'd stock_row list" where
  "assign name s df = map (\<lambda>(r, v). r\<lparr>extra := set_cell name (Flt v) (extra r)\<rparr>) (zip df s)"













text \<open>The check in front of the correlation matrix.\<close>

definition duplicate_warning :: "int option stock_row list \<Rightarrow> widget list" where
  "duplicate_warning data =
     (if list_ex (\<lambda>b. b) (duplicated date_symbol data)
      then [Warning (''Warning: Dataset contains duplicate (Date, Symbol) entries. '' @
                     ''They have been handled automatically.'')]
      else [])"

section \<open>Notions and sample inputs used to state the properties of BookScape\<close>

text \<open>The names of the 21 fields of a flattened book, in the order of the source.\<close>

definition book_fields :: "string list" where
  "book_fields =
     [''book_id'', ''title'', ''subtitle'', ''authors'', ''description'', ''categories'',
      ''page_count'', ''language'', ''image_link'', ''average_rating'', ''ratings_count'',
      ''publisher'', ''published_year'', ''is_ebook'', ''saleability'', ''amount_list_price'',
      ''currency_code_list_price'', ''amount_retail_price'', ''currency_code_retail_price'',
      ''buy_link'', ''country'']"





definition example_world :: world where
  "example_world =
     \<lparr>tables = [''books'' \<mapsto> \<lparr>columns = book_fields, rows = [replicate 21 (JStr ''old'')]\<rparr>],
      open_conns = [], next_conn = 0, sql_log = []\<rparr>"


text \<open>
  The two fixed parts of the statement of the keyword analysis, around the keyword.
\<close>

definition keyword_query_prefix :: string where
  "keyword_query_prefix =
        ''\<newline>'' @
        ''                SELECT title, authors, published_year\<newline>'' @
        ''                FROM books\<newline>'' @
        ''                WHERE title LIKE '%''"

definition keyword_query_suffix :: string where
  "keyword_query_suffix =
        ''%'' @
        [CHR 0x27] @
        ''\<newline>'' @
        ''            ''"

text \<open>
  A statement is a query when \<^verbatim>\<open>SELECT\<close> is its first word. SQLite's Python module
  executes one statement per call, so such a text cannot change the database.
\<close>

definition is_space :: "char \<Rightarrow> bool" where
  "is_space c = (c = CHR '' '' \<or> c = CHR ''\<newline>'' \<or> c = CHR 0x09 \<or> c = CHR 0x0D)"

definition is_select :: "string \<Rightarrow> bool" where
  "is_select query = (take 7 (dropWhile is_space query) = ''SELECT '')"

text \<open>
  Sample engines: one answers every query with the whole table \<^verbatim>\<open>books\<close> and drops
  the table on anything else; one finds the database locked. A database file whose
  table has one column. Three HTTP clients: one gets status 503, one cannot connect, one gets a
  list of items that are not books.
\<close>

definition example_engine :: engine where
  "example_engine query t =
     (if is_select query
      then (case t ''books'' of
              None \<Rightarrow> (Inl (LibraryError ''no such table: books''), t)
            | Some df \<Rightarrow> (Inr df, t))
      else (Inl (LibraryError ''not a query''), t(''books'' := None)))"

definition example_engine_locked :: engine where
  "example_engine_locked query t = (Inl (LibraryError ''database is locked''), t)"

definition example_world_titles :: world where
  "example_world_titles =
     \<lparr>tables = [''books'' \<mapsto> \<lparr>columns = [''title''], rows = [[JStr ''Data Science'']]\<rparr>],
      open_conns = [], next_conn = 0, sql_log = []\<rparr>"

definition example_http_unavailable :: http_client where
  "example_http_unavailable url params =
     Inr \<lparr>status_code = 503, json_of = Inl (LibraryError ''Expecting value'')\<rparr>"

definition example_http_down :: http_client where
  "example_http_down url params = Inl (LibraryError ''Connection refused'')"

definition example_http_garbled :: http_client where
  "example_http_garbled url params =
     Inr \<lparr>status_code = 200, json_of = Inr (JObj [(''items'', JArr [JNum 1])])\<rparr>"

section \<open>Notions used to state the properties of the stock dashboard\<close>

text \<open>
  The positions of a frame that no later position repeats, for a given key; what it
  means for a row to be the parsed form of a row of the upload; the rows a selection
  asks for; and the three columns of a row that come from the upload.
\<close>

definition last_occurrences :: "('a \<Rightarrow> 'k) \<Rightarrow> 'a list \<Rightarrow> nat set" where
  "last_occurrences key xs =
     {i. i < length xs \<and> (\<forall>j. i < j \<and> j < length xs \<longrightarrow> key (xs ! j) \<noteq> key (xs ! i))}"

definition parsed_from :: "(string \<Rightarrow> int option) \<Rightarrow> string option stock_row
    \<Rightarrow> int option stock_row \<Rightarrow> bool" where
  "parsed_from parse r p =
     ((case Date r of None \<Rightarrow> Date p = None
       | Some s \<Rightarrow> (case parse s of None \<Rightarrow> False | Some t \<Rightarrow> Date p = Some t))
      \<and> Symbol p = Symbol r \<and> Close p = Close r \<and> extra p = extra r)"





text \<open>A small upload, with one repeated (Date, Symbol) pair, and a parser for its dates.\<close>

definition example_parse :: "string \<Rightarrow> int option" where
  "example_parse s =
     (if s = ''2024-01-01'' then Some 1704067200000000000
      else if s = ''2024-01-02'' then Some 1704153600000000000
      else None)"

definition example_csv :: "string option stock_row list" where
  "example_csv =
     [\<lparr>Date = Some ''2024-01-01'', Symbol = Some ''TCS'', Close = 100, extra = []\<rparr>,
      \<lparr>Date = Some ''2024-01-01'', Symbol = Some ''INFY'', Close = 50, extra = []\<rparr>,
      \<lparr>Date = Some ''2024-01-01'', Symbol = Some ''TCS'', Close = 101, extra = []\<rparr>,
      \<lparr>Date = Some ''2024-01-02'', Symbol = Some ''TCS'', Close = 103, extra = []\<rparr>]"

definition example_parsed :: "int option stock_row list" where
  "example_parsed =
     [\<lparr>Date = Some 1704067200000000000, Symbol = Some ''TCS'', Close = 100, extra = []\<rparr>,
      \<lparr>Date = Some 1704067200000000000, Symbol = Some ''INFY'', Close = 50, extra = []\<rparr>,
      \<lparr>Date = Some 1704067200000000000, Symbol = Some ''TCS'', Close = 101, extra = []\<rparr>,
      \<lparr>Date = Some 1704153600000000000, Symbol = Some ''TCS'', Close = 103, extra = []\<rparr>]"

definition example_data :: "int option stock_row list" where
  "example_data =
     [\<lparr>Date = Some 1704067200000000000, Symbol = Some ''INFY'', Close = 50, extra = []\<rparr>,
      \<lparr>Date = Some 1704067200000000000, Symbol = Some ''TCS'', Close = 101, extra = []\<rparr>,
      \<lparr>Date = Some 1704153600000000000, Symbol = Some ''TCS'', Close = 103, extra = []\<rparr>]"

section \<open>Properties of BookScape\<close>

subsection \<open>Flattening the books and storing the frame\<close>

lemma sum_bind_Inr: "sum_bind m f = Inr y \<longleftrightarrow> (\<exists>x. m = Inr x \<and> f x = Inr y)"
  by (cases m) (simp_all add: sum_bind_def)














lemma save_to_database_tables:
  "save_to_database df w = (Inr (), w') \<Longrightarrow> tables w' = (tables w)(''books'' \<mapsto> df)"
  by (auto simp: save_to_database_def connect_def to_sql_def close_def
           split: option.splits prod.splits sum.splits)








lemma chain_defined:
  "c \<in> set [a1, a2, a3, a4, a5, a6, a7, a8, a9, a10, a11, a12, a13, a14, a15, a16, a17, a18, a19] \<Longrightarrow>
   (if c = a1 then Some x1 else if c = a2 then Some x2 else if c = a3 then Some x3 else if c = a4 then Some x4 else if c = a5 then Some x5 else if c = a6 then Some x6 else if c = a7 then Some x7 else if c = a8 then Some x8 else if c = a9 then Some x9 else if c = a10 then Some x10 else if c = a11 then Some x11 else if c = a12 then Some x12 else if c = a13 then Some x13 else if c = a14 then Some x14 else if c = a15 then Some x15 else if c = a16 then Some x16 else if c = a17 then Some x17 else if c = a18 then Some x18 else if c = a19 then Some x19 else None) \<noteq> None"
  by auto

lemma chain_other:
  "c \<noteq> a16 \<Longrightarrow>
   (if c = a1 then Some x1 else if c = a2 then Some x2 else if c = a3 then Some x3 else if c = a4 then Some x4 else if c = a5 then Some x5 else if c = a6 then Some x6 else if c = a7 then Some x7 else if c = a8 then Some x8 else if c = a9 then Some x9 else if c = a10 then Some x10 else if c = a11 then Some x11 else if c = a12 then Some x12 else if c = a13 then Some x13 else if c = a14 then Some x14 else if c = a15 then Some x15 else if c = a16 then Some x16 else if c = a17 then Some x17 else if c = a18 then Some x18 else if c = a19 then Some x19 else None) =
   (if c = a1 then Some x1 else if c = a2 then Some x2 else if c = a3 then Some x3 else if c = a4 then Some x4 else if c = a5 then Some x5 else if c = a6 then Some x6 else if c = a7 then Some x7 else if c = a8 then Some x8 else if c = a9 then Some x9 else if c = a10 then Some x10 else if c = a11 then Some x11 else if c = a12 then Some x12 else if c = a13 then Some x13 else if c = a14 then Some x14 else if c = a15 then Some x15 else if c = a16 then Some y16 else if c = a17 then Some x17 else if c = a18 then Some x18 else if c = a19 then Some x19 else None)"
  by simp

lemma chain_value:
  "(if c = a1 then Some x1 else if c = a2 then Some x2 else if c = a3 then Some x3 else if c = a4 then Some x4 else if c = a5 then Some x5 else if c = a6 then Some x6 else if c = a7 then Some x7 else if c = a8 then Some x8 else if c = a9 then Some x9 else if c = a10 then Some x10 else if c = a11 then Some x11 else if c = a12 then Some x12 else if c = a13 then Some x13 else if c = a14 then Some x14 else if c = a15 then Some x15 else if c = a16 then Some x16 else if c = a17 then Some x17 else if c = a18 then Some x18 else if c = a19 then Some x19 else None) = Some q \<Longrightarrow>
   q \<in> set [x1, x2, x3, x4, x5, x6, x7, x8, x9, x10, x11, x12, x13, x14, x15, x16, x17, x18, x19]"
  by (simp split: if_splits)

lemma analysis_query_other_keyword:
  "analysis_choice \<noteq> ''Books with a Specific Keyword in the Title''
     \<Longrightarrow> analysis_query analysis_choice keyword = analysis_query analysis_choice []"
  unfolding analysis_query_def by (rule chain_other)

lemma analysis_query_defined:
  "analysis_choice \<in> set analysis_options \<Longrightarrow> analysis_query analysis_choice keyword \<noteq> None"
  unfolding analysis_options_def analysis_query_def by (rule chain_defined)

lemma analysis_query_keyword:
  "analysis_query ''Books with a Specific Keyword in the Title'' keyword
     = Some (keyword_query_prefix @ keyword @ keyword_query_suffix)"
  by (simp add: analysis_query_def keyword_query_prefix_def keyword_query_suffix_def)

lemma is_select_indented:
  "is_select (''\<newline>'' @ (''                SELECT '' @ rest1) @ rest2)"
  by (simp add: is_select_def is_space_def)

lemma analysis_query_select:
  assumes "analysis_query analysis_choice keyword = Some query"
  shows "is_select query"
  using assms [unfolded analysis_query_def, THEN chain_value]
  unfolding list.set insert_iff empty_iff
  by (elim disjE FalseE) (simp_all add: is_select_def is_space_def)

lemma query_database_fst: "fst (query_database eng query w) = fst (eng query (tables w))"
  by (cases "eng query (tables w)"; cases "fst (eng query (tables w))")
     (auto simp: query_database_def read_sql_query_def connect_def close_def)


lemma query_database_log:
  "sql_log (snd (query_database eng query w)) = sql_log w @ [query]"
  by (cases "eng query (tables w)"; cases "fst (eng query (tables w))")
     (auto simp: query_database_def read_sql_query_def connect_def close_def)


lemma query_database_closed:
  "fst (eng query (tables w)) = Inr result \<Longrightarrow>
     open_conns (snd (query_database eng query w)) = removeAll (next_conn w) (open_conns w)"
  by (cases "eng query (tables w)")
     (auto simp: query_database_def read_sql_query_def connect_def close_def)


lemma run_analysis_snd:
  "analysis_query analysis_choice keyword = Some query \<Longrightarrow>
     snd (run_analysis eng analysis_choice keyword w) = snd (query_database eng query w)"
  by (cases "query_database eng query w")
     (auto simp: run_analysis_def split: sum.splits)

lemma run_analysis_fst:
  "analysis_query analysis_choice keyword = Some query \<Longrightarrow>
     fst (run_analysis eng analysis_choice keyword w) =
       (case fst (eng query (tables w)) of
          Inl e \<Rightarrow> [Error [Lit ''Error running analysis: '', ExnPart e]]
        | Inr result \<Rightarrow>
            (case analysis_render analysis_choice result of
               Inl e \<Rightarrow> [Error [Lit ''Error running analysis: '', ExnPart e]]
             | Inr shown \<Rightarrow> [shown]))"
  using query_database_fst [of eng query w]
  by (cases "query_database eng query w")
     (auto simp: run_analysis_def split: sum.splits)


lemma run_analysis_log:
  "analysis_query analysis_choice keyword = Some query \<Longrightarrow>
     sql_log (snd (run_analysis eng analysis_choice keyword w)) = sql_log w @ [query]"
  by (simp add: run_analysis_snd query_database_log)

subsection \<open>The statement of an analysis\<close>

text \<open>
  Against claim C1 as stated: with the keyword analysis chosen in both runs, the
  keyword \<^verbatim>\<open>Python\<close> and the keyword \<^verbatim>\<open>Java\<close> send different statements to the engine.
\<close>

theorem analysis_sql_keyword_counterexample:
  "''Books with a Specific Keyword in the Title'' \<in> set analysis_options
   \<and> sql_log (snd (run_analysis example_engine ''Books with a Specific Keyword in the Title''
                       ''Python'' example_world))
     \<noteq> sql_log (snd (run_analysis example_engine ''Books with a Specific Keyword in the Title''
                       ''Java'' example_world))"
proof -
  have "''Books with a Specific Keyword in the Title'' \<in> set analysis_options"
    by (simp add: analysis_options_def)
  moreover have "sql_log (snd (run_analysis example_engine
        ''Books with a Specific Keyword in the Title'' ''Python'' example_world))
     = sql_log example_world @ [keyword_query_prefix @ ''Python'' @ keyword_query_suffix]"
    using analysis_query_keyword by (rule run_analysis_log)
  moreover have "sql_log (snd (run_analysis example_engine
        ''Books with a Specific Keyword in the Title'' ''Java'' example_world))
     = sql_log example_world @ [keyword_query_prefix @ ''Java'' @ keyword_query_suffix]"
    using analysis_query_keyword by (rule run_analysis_log)
  ultimately show ?thesis by simp
qed

text \<open>
  Claim C1, amended. For each of the 18 analyses other than the keyword analysis the
  statement executed is one fixed text, the same for every keyword, engine and state.
  For the keyword analysis it is the fixed text around the keyword with the content
  of the text box put between \<^verbatim>\<open>'%\<close> and \<^verbatim>\<open>%'\<close> as it is.
\<close>

theorem analysis_sql_fixed_except_keyword:
  assumes "analysis_choice \<in> set analysis_options"
  shows "(analysis_choice \<noteq> ''Books with a Specific Keyword in the Title'' \<longrightarrow>
            (\<exists>sql. \<forall>eng keyword w.
                analysis_query analysis_choice keyword = Some sql
                \<and> sql_log (snd (run_analysis eng analysis_choice keyword w)) = sql_log w @ [sql]))
       \<and> (analysis_choice = ''Books with a Specific Keyword in the Title'' \<longrightarrow>
            (\<forall>eng keyword w.
                analysis_query analysis_choice keyword
                  = Some (keyword_query_prefix @ keyword @ keyword_query_suffix)
                \<and> sql_log (snd (run_analysis eng analysis_choice keyword w))
                  = sql_log w @ [keyword_query_prefix @ keyword @ keyword_query_suffix]))"
proof (intro conjI impI)
  assume other: "analysis_choice \<noteq> ''Books with a Specific Keyword in the Title''"
  from assms have "analysis_query analysis_choice [] \<noteq> None" by (rule analysis_query_defined)
  then obtain sql where sql: "analysis_query analysis_choice [] = Some sql" by blast
  have q: "analysis_query analysis_choice keyword = Some sql" for keyword
    using analysis_query_other_keyword [OF other, of keyword] sql by simp
  have "sql_log (snd (run_analysis eng analysis_choice keyword w)) = sql_log w @ [sql]"
    for eng keyword w
    using q [of keyword] by (rule run_analysis_log)
  with q show "\<exists>sql. \<forall>eng keyword w.
                analysis_query analysis_choice keyword = Some sql
                \<and> sql_log (snd (run_analysis eng analysis_choice keyword w)) = sql_log w @ [sql]"
    by blast
next
  assume kw: "analysis_choice = ''Books with a Specific Keyword in the Title''"
  have q: "analysis_query analysis_choice keyword
             = Some (keyword_query_prefix @ keyword @ keyword_query_suffix)" for keyword
    unfolding kw by (rule analysis_query_keyword)
  have "sql_log (snd (run_analysis eng analysis_choice keyword w))
          = sql_log w @ [keyword_query_prefix @ keyword @ keyword_query_suffix]"
    for eng keyword w
    using q [of keyword] by (rule run_analysis_log)
  with q show "\<forall>eng keyword w.
                analysis_query analysis_choice keyword
                  = Some (keyword_query_prefix @ keyword @ keyword_query_suffix)
                \<and> sql_log (snd (run_analysis eng analysis_choice keyword w))
                  = sql_log w @ [keyword_query_prefix @ keyword @ keyword_query_suffix]"
    by blast
qed

theorem analysis_sql_fixed_except_keyword_witness:
  "''Top 5 Most Expensive Books'' \<in> set analysis_options
   \<and> ''Top 5 Most Expensive Books'' \<noteq> ''Books with a Specific Keyword in the Title''
   \<and> (\<exists>sql. \<forall>eng keyword w.
          analysis_query ''Top 5 Most Expensive Books'' keyword = Some sql
          \<and> sql_log (snd (run_analysis eng ''Top 5 Most Expensive Books'' keyword w))
              = sql_log w @ [sql])
   \<and> ''Books with a Specific Keyword in the Title'' \<in> set analysis_options
   \<and> (\<forall>eng keyword w.
          analysis_query ''Books with a Specific Keyword in the Title'' keyword
            = Some (keyword_query_prefix @ keyword @ keyword_query_suffix)
          \<and> sql_log (snd (run_analysis eng ''Books with a Specific Keyword in the Title'' keyword w))
            = sql_log w @ [keyword_query_prefix @ keyword @ keyword_query_suffix])"
proof -
  have a: "''Top 5 Most Expensive Books'' \<in> set analysis_options"
    by (simp add: analysis_options_def)
  have b: "''Top 5 Most Expensive Books'' \<noteq> ''Books with a Specific Keyword in the Title''"
    by simp
  have c: "''Books with a Specific Keyword in the Title'' \<in> set analysis_options"
    by (simp add: analysis_options_def)
  from analysis_sql_fixed_except_keyword [OF a] b
  have d: "\<exists>sql. \<forall>eng keyword w.
          analysis_query ''Top 5 Most Expensive Books'' keyword = Some sql
          \<and> sql_log (snd (run_analysis eng ''Top 5 Most Expensive Books'' keyword w))
              = sql_log w @ [sql]"
    by blast
  from analysis_sql_fixed_except_keyword [OF c]
  have e: "\<forall>eng keyword w.
          analysis_query ''Books with a Specific Keyword in the Title'' keyword
            = Some (keyword_query_prefix @ keyword @ keyword_query_suffix)
          \<and> sql_log (snd (run_analysis eng ''Books with a Specific Keyword in the Title'' keyword w))
            = sql_log w @ [keyword_query_prefix @ keyword @ keyword_query_suffix]"
    by blast
  show ?thesis by (intro conjI a b c d e)
qed

subsection \<open>What happens to a failure\<close>

text \<open>
  Against claim C4 as stated: an HTTP status other than 200 is turned into the empty
  list and shown as \<^verbatim>\<open>No books found.\<close>, not as an error message; and an exception
  of the request is not caught by the script at all.
\<close>

theorem failures_counterexample:
  "fetch_books example_http_unavailable ''Data Science'' 40 = Inr (JArr [])
   \<and> search_handler example_http_unavailable ''Data Science'' example_world
       = (Inr [Error [Lit ''No books found.'']], example_world)
   \<and> search_handler example_http_down ''Data Science'' example_world
       = (Inl (LibraryError ''Connection refused''), example_world)"
  by (simp add: fetch_books_def search_handler_def example_http_unavailable_def
        example_http_down_def sum_bind_def truthy_def)

lemma run_query_handler_fst:
  "fst (run_query_handler eng sql_query w) =
     (case fst (eng sql_query (tables w)) of
        Inl e \<Rightarrow> [Error [Lit ''Error running query: '', ExnPart e]]
      | Inr query_result \<Rightarrow> [Header ''Query Results'', Dataframe query_result])"
  using query_database_fst [of eng sql_query w]
  by (cases "query_database eng sql_query w")
     (auto simp: run_query_handler_def split: sum.splits)

text \<open>
  Claim C4, amended. An exception of a user query or of an analysis (of its query or of
  drawing its result) is caught by the handler of the button, which shows the message
  of the exception and nothing else. Fetching is different: a status other than 200 is
  replaced by the empty list, on which the script shows \<^verbatim>\<open>No books found.\<close>, and an
  exception raised while fetching or flattening ends the run uncaught.
\<close>

theorem failures_handling:
  "(fst (query_database eng sql_query w) = Inl e \<longrightarrow>
      fst (run_query_handler eng sql_query w) = [Error [Lit ''Error running query: '', ExnPart e]])
   \<and> (analysis_query analysis_choice keyword = Some query
        \<and> fst (query_database eng query w) = Inl e \<longrightarrow>
      fst (run_analysis eng analysis_choice keyword w)
        = [Error [Lit ''Error running analysis: '', ExnPart e]])
   \<and> (analysis_query analysis_choice keyword = Some query
        \<and> fst (query_database eng query w) = Inr result
        \<and> analysis_render analysis_choice result = Inl e \<longrightarrow>
      fst (run_analysis eng analysis_choice keyword w)
        = [Error [Lit ''Error running analysis: '', ExnPart e]])
   \<and> (http_get API_URL [(''q'', JStr search), (''maxResults'', JNum 40)] = Inr response
        \<and> status_code response \<noteq> 200 \<longrightarrow>
      fetch_books http_get search 40 = Inr (JArr [])
      \<and> search_handler http_get search w = (Inr [Error [Lit ''No books found.'']], w))
   \<and> (fetch_books http_get search 40 = Inl e \<longrightarrow>
      search_handler http_get search w = (Inl e, w))
   \<and> (fetch_books http_get search 40 = Inr books \<and> truthy books
        \<and> transform_data books = Inl e \<longrightarrow>
      search_handler http_get search w = (Inl e, w))"
proof (intro conjI impI)
  assume "fst (query_database eng sql_query w) = Inl e"
  then show "fst (run_query_handler eng sql_query w)
      = [Error [Lit ''Error running query: '', ExnPart e]]"
    by (simp add: run_query_handler_fst query_database_fst)
next
  assume "analysis_query analysis_choice keyword = Some query
        \<and> fst (query_database eng query w) = Inl e"
  then show "fst (run_analysis eng analysis_choice keyword w)
        = [Error [Lit ''Error running analysis: '', ExnPart e]]"
    by (simp add: run_analysis_fst query_database_fst)
next
  assume "analysis_query analysis_choice keyword = Some query
        \<and> fst (query_database eng query w) = Inr result
        \<and> analysis_render analysis_choice result = Inl e"
  then show "fst (run_analysis eng analysis_choice keyword w)
        = [Error [Lit ''Error running analysis: '', ExnPart e]]"
    by (simp add: run_analysis_fst query_database_fst)
next
  assume h: "http_get API_URL [(''q'', JStr search), (''maxResults'', JNum 40)] = Inr response
        \<and> status_code response \<noteq> 200"
  then show "fetch_books http_get search 40 = Inr (JArr [])"
    by (simp add: fetch_books_def sum_bind_def)
  then show "search_handler http_get search w = (Inr [Error [Lit ''No books found.'']], w)"
    by (simp add: search_handler_def truthy_def)
next
  assume "fetch_books http_get search 40 = Inl e"
  then show "search_handler http_get search w = (Inl e, w)"
    by (simp add: search_handler_def)
next
  assume "fetch_books http_get search 40 = Inr books \<and> truthy books
        \<and> transform_data books = Inl e"
  then show "search_handler http_get search w = (Inl e, w)"
    by (simp add: search_handler_def)
qed

theorem failures_handling_witness:
  "fst (run_query_handler example_engine_locked ''SELECT * FROM books LIMIT 10'' example_world)
     = [Error [Lit ''Error running query: '', ExnPart (LibraryError ''database is locked'')]]
   \<and> fst (run_analysis example_engine_locked ''Top 5 Most Expensive Books'' ''Python''
            example_world)
     = [Error [Lit ''Error running analysis: '', ExnPart (LibraryError ''database is locked'')]]
   \<and> fst (run_analysis example_engine ''Availability of eBooks vs Physical Books'' ''Python''
            example_world_titles)
     = [Error [Lit ''Error running analysis: '', ExnPart (KeyError ''is_ebook'')]]
   \<and> search_handler example_http_unavailable ''Data Science'' example_world
     = (Inr [Error [Lit ''No books found.'']], example_world)
   \<and> search_handler example_http_down ''Data Science'' example_world
     = (Inl (LibraryError ''Connection refused''), example_world)
   \<and> search_handler example_http_garbled ''Data Science'' example_world
     = (Inl AttributeError, example_world)"
proof -
  have hA: "fst (query_database example_engine_locked ''SELECT * FROM books LIMIT 10''
                  example_world) = Inl (LibraryError ''database is locked'')"
    by (simp add: query_database_fst example_engine_locked_def)
  have A: "fst (run_query_handler example_engine_locked ''SELECT * FROM books LIMIT 10''
                 example_world)
     = [Error [Lit ''Error running query: '', ExnPart (LibraryError ''database is locked'')]]"
    using failures_handling [where eng = example_engine_locked
        and sql_query = "''SELECT * FROM books LIMIT 10''" and w = example_world
        and e = "LibraryError ''database is locked''"] hA
    by blast
  have "''Top 5 Most Expensive Books'' \<in> set analysis_options"
    by (simp add: analysis_options_def)
  then have "analysis_query ''Top 5 Most Expensive Books'' ''Python'' \<noteq> None"
    by (rule analysis_query_defined)
  then obtain q1 where q1: "analysis_query ''Top 5 Most Expensive Books'' ''Python'' = Some q1"
    by blast
  have hB: "fst (query_database example_engine_locked q1 example_world)
              = Inl (LibraryError ''database is locked'')"
    by (simp add: query_database_fst example_engine_locked_def)
  have B: "fst (run_analysis example_engine_locked ''Top 5 Most Expensive Books'' ''Python''
            example_world)
     = [Error [Lit ''Error running analysis: '', ExnPart (LibraryError ''database is locked'')]]"
    using failures_handling [where eng = example_engine_locked
        and analysis_choice = "''Top 5 Most Expensive Books''" and keyword = "''Python''"
        and query = q1 and w = example_world
        and e = "LibraryError ''database is locked''"] q1 hB
    by blast
  have "''Availability of eBooks vs Physical Books'' \<in> set analysis_options"
    by (simp add: analysis_options_def)
  then have "analysis_query ''Availability of eBooks vs Physical Books'' ''Python'' \<noteq> None"
    by (rule analysis_query_defined)
  then obtain q2 where
    q2: "analysis_query ''Availability of eBooks vs Physical Books'' ''Python'' = Some q2"
    by blast
  from q2 have "is_select q2" by (rule analysis_query_select)
  then have hC: "fst (query_database example_engine q2 example_world_titles)
              = Inr \<lparr>columns = [''title''], rows = [[JStr ''Data Science'']]\<rparr>"
    by (simp add: query_database_fst example_engine_def example_world_titles_def)
  have hC': "analysis_render ''Availability of eBooks vs Physical Books''
               \<lparr>columns = [''title''], rows = [[JStr ''Data Science'']]\<rparr>
             = Inl (KeyError ''is_ebook'')"
    by (simp add: analysis_render_def set_index_def sum_bind_def)
  have C: "fst (run_analysis example_engine ''Availability of eBooks vs Physical Books''
            ''Python'' example_world_titles)
     = [Error [Lit ''Error running analysis: '', ExnPart (KeyError ''is_ebook'')]]"
    using failures_handling [where eng = example_engine
        and analysis_choice = "''Availability of eBooks vs Physical Books''"
        and keyword = "''Python''" and query = q2 and w = example_world_titles
        and result = "\<lparr>columns = [''title''], rows = [[JStr ''Data Science'']]\<rparr>"
        and e = "KeyError ''is_ebook''"] q2 hC hC'
    by blast
  have hD: "example_http_unavailable API_URL [(''q'', JStr ''Data Science''), (''maxResults'', JNum 40)]
              = Inr \<lparr>status_code = 503, json_of = Inl (LibraryError ''Expecting value'')\<rparr>
            \<and> status_code \<lparr>status_code = 503, json_of = Inl (LibraryError ''Expecting value'')\<rparr>
                \<noteq> 200"
    by (simp add: example_http_unavailable_def)
  have D: "search_handler example_http_unavailable ''Data Science'' example_world
     = (Inr [Error [Lit ''No books found.'']], example_world)"
    using failures_handling [where http_get = example_http_unavailable
        and search = "''Data Science''" and w = example_world
        and response = "\<lparr>status_code = 503, json_of = Inl (LibraryError ''Expecting value'')\<rparr>"] hD
    by blast
  have hE: "fetch_books example_http_down ''Data Science'' 40
              = Inl (LibraryError ''Connection refused'')"
    by (simp add: fetch_books_def example_http_down_def sum_bind_def)
  have E: "search_handler example_http_down ''Data Science'' example_world
     = (Inl (LibraryError ''Connection refused''), example_world)"
    using failures_handling [where http_get = example_http_down
        and search = "''Data Science''" and w = example_world
        and e = "LibraryError ''Connection refused''"] hE
    by blast
  have hF: "fetch_books example_http_garbled ''Data Science'' 40 = Inr (JArr [JNum 1])
            \<and> truthy (JArr [JNum 1]) \<and> transform_data (JArr [JNum 1]) = Inl AttributeError"
    by (simp add: fetch_books_def example_http_garbled_def sum_bind_def py_get_def truthy_def
          transform_data_def py_iter_def flatten_book_def)
  have F: "search_handler example_http_garbled ''Data Science'' example_world
     = (Inl AttributeError, example_world)"
    using failures_handling [where http_get = example_http_garbled
        and search = "''Data Science''" and w = example_world
        and books = "JArr [JNum 1]" and e = AttributeError] hF
    by blast
  show ?thesis by (intro conjI A B C D E F)
qed

subsection \<open>The effect of an analysis on the database\<close>




lemma example_analysis_closes:
  "open_conns (snd (run_analysis example_engine ''Top 5 Most Expensive Books'' ''Python''
                      example_world)) = []"
proof -
  have "''Top 5 Most Expensive Books'' \<in> set analysis_options"
    by (simp add: analysis_options_def)
  then have "analysis_query ''Top 5 Most Expensive Books'' ''Python'' \<noteq> None"
    by (rule analysis_query_defined)
  then obtain q where q: "analysis_query ''Top 5 Most Expensive Books'' ''Python'' = Some q"
    by blast
  from q have "is_select q" by (rule analysis_query_select)
  then have "fst (example_engine q (tables example_world))
               = Inr \<lparr>columns = book_fields, rows = [replicate 21 (JStr ''old'')]\<rparr>"
    by (simp add: example_engine_def example_world_def)
  then have "open_conns (snd (query_database example_engine q example_world))
               = removeAll (next_conn example_world) (open_conns example_world)"
    by (rule query_database_closed)
  then show ?thesis by (simp add: run_analysis_snd [OF q] example_world_def)
qed

section \<open>Properties of the stock dashboard\<close>

subsection \<open>Removing repeated (Date, Symbol) pairs\<close>

lemma set_drop_duplicates_last_keys:
  "set (map key (drop_duplicates_last key xs)) = set (map key xs)"
  by (induction xs) auto

lemma set_drop_duplicates_last_subset:
  "set (drop_duplicates_last key xs) \<subseteq> set xs"
  by (induction xs) auto

lemma distinct_drop_duplicates_last:
  "distinct (map key (drop_duplicates_last key xs))"
proof (induction xs)
  case Nil
  show ?case by simp
next
  case (Cons x xs)
  have "key x \<notin> set (map key xs) \<Longrightarrow> key x \<notin> set (map key (drop_duplicates_last key xs))"
    using set_drop_duplicates_last_keys [of key xs] by blast
  with Cons show ?case by simp
qed

lemma last_occurrences_Cons_shift:
  "{j. Suc j \<in> last_occurrences key (x # xs)} = last_occurrences key xs"
proof -
  have "\<And>i. (\<forall>j. Suc i < j \<and> j < Suc (length xs) \<longrightarrow> key ((x # xs) ! j) \<noteq> key (xs ! i))
           = (\<forall>j. i < j \<and> j < length xs \<longrightarrow> key (xs ! j) \<noteq> key (xs ! i))"
  proof
    fix i
    assume h: "\<forall>j. Suc i < j \<and> j < Suc (length xs) \<longrightarrow> key ((x # xs) ! j) \<noteq> key (xs ! i)"
    show "\<forall>j. i < j \<and> j < length xs \<longrightarrow> key (xs ! j) \<noteq> key (xs ! i)"
    proof (intro allI impI)
      fix j assume "i < j \<and> j < length xs"
      then have "Suc i < Suc j \<and> Suc j < Suc (length xs)" by simp
      with h have "key ((x # xs) ! Suc j) \<noteq> key (xs ! i)" by blast
      then show "key (xs ! j) \<noteq> key (xs ! i)" by simp
    qed
  next
    fix i
    assume h: "\<forall>j. i < j \<and> j < length xs \<longrightarrow> key (xs ! j) \<noteq> key (xs ! i)"
    show "\<forall>j. Suc i < j \<and> j < Suc (length xs) \<longrightarrow> key ((x # xs) ! j) \<noteq> key (xs ! i)"
    proof (intro allI impI)
      fix j assume a: "Suc i < j \<and> j < Suc (length xs)"
      then obtain j' where j': "j = Suc j'" by (cases j) auto
      with a h have "key (xs ! j') \<noteq> key (xs ! i)" by simp
      with j' show "key ((x # xs) ! j) \<noteq> key (xs ! i)" by simp
    qed
  qed
  then show ?thesis by (simp add: last_occurrences_def)
qed

lemma zero_in_last_occurrences:
  "0 \<in> last_occurrences key (x # xs) \<longleftrightarrow> key x \<notin> key ` set xs"
proof
  assume h: "0 \<in> last_occurrences key (x # xs)"
  then have all: "\<forall>j. 0 < j \<and> j < Suc (length xs) \<longrightarrow> key ((x # xs) ! j) \<noteq> key x"
    by (simp add: last_occurrences_def)
  show "key x \<notin> key ` set xs"
  proof
    assume "key x \<in> key ` set xs"
    then obtain y where y: "y \<in> set xs" "key y = key x" by force
    then obtain j where j: "j < length xs" "xs ! j = y"
      by (auto simp: in_set_conv_nth)
    from all have "0 < Suc j \<and> Suc j < Suc (length xs) \<longrightarrow> key ((x # xs) ! Suc j) \<noteq> key x"
      by (rule spec)
    with j(1) have "key ((x # xs) ! Suc j) \<noteq> key x" by simp
    with j(2) y(2) show False by simp
  qed
next
  assume h: "key x \<notin> key ` set xs"
  have "\<forall>j. 0 < j \<and> j < Suc (length xs) \<longrightarrow> key ((x # xs) ! j) \<noteq> key x"
  proof (intro allI impI)
    fix j assume a: "0 < j \<and> j < Suc (length xs)"
    then obtain j' where j': "j = Suc j'" by (cases j) auto
    with a have "xs ! j' \<in> set xs" by simp
    then have "key (xs ! j') \<in> key ` set xs" by (rule imageI)
    with h have "key (xs ! j') \<noteq> key x" by metis
    with j' show "key ((x # xs) ! j) \<noteq> key x" by simp
  qed
  then show "0 \<in> last_occurrences key (x # xs)"
    by (simp add: last_occurrences_def)
qed

lemma drop_duplicates_last_nths:
  "drop_duplicates_last key xs = nths xs (last_occurrences key xs)"
proof (induction xs)
  case Nil
  show ?case by simp
next
  case (Cons x xs)
  show ?case
    by (simp add: nths_Cons last_occurrences_Cons_shift zero_in_last_occurrences Cons.IH)
qed

lemma duplicated_after_all_False:
  "distinct (map key xs) \<Longrightarrow> set seen \<inter> set (map key xs) = {}
     \<Longrightarrow> \<not> list_ex (\<lambda>b. b) (duplicated_after seen key xs)"
  by (induction xs arbitrary: seen) auto

lemma duplicated_drop_duplicates_last:
  "\<not> list_ex (\<lambda>b. b) (duplicated key (drop_duplicates_last key xs))"
  unfolding duplicated_def
  by (rule duplicated_after_all_False) (simp_all add: distinct_drop_duplicates_last)

lemma to_datetime_parsed:
  "to_datetime parse csv = Inr parsed \<Longrightarrow> list_all2 (parsed_from parse) csv parsed"
proof (induction csv arbitrary: parsed)
  case Nil
  then show ?case by simp
next
  case (Cons r rs)
  from Cons.prems obtain d rs' where
    d: "(case Date r of None \<Rightarrow> Inr None
         | Some s \<Rightarrow> (case parse s of None \<Rightarrow> Inl ValueError | Some t \<Rightarrow> Inr (Some t))) = Inr d"
    and rs': "to_datetime parse rs = Inr rs'"
    and parsed: "parsed = \<lparr>Date = d, Symbol = Symbol r, Close = Close r, extra = extra r\<rparr> # rs'"
    by (auto split: sum.splits)
  from d have "parsed_from parse r \<lparr>Date = d, Symbol = Symbol r, Close = Close r, extra = extra r\<rparr>"
    by (auto simp: parsed_from_def split: option.splits)
  moreover from rs' have "list_all2 (parsed_from parse) rs rs'" by (rule Cons.IH)
  ultimately show ?case unfolding parsed by simp
qed

lemma unique_key_kept:
  "r \<in> set xs \<Longrightarrow> length (filter (\<lambda>x. key x = key r) xs) = 1
     \<Longrightarrow> r \<in> set (drop_duplicates_last key xs)"
proof (induction xs)
  case Nil
  then show ?case by simp
next
  case (Cons x xs)
  show ?case
  proof (cases "key x = key r")
    case True
    with Cons.prems(2) have empty: "filter (\<lambda>y. key y = key r) xs = []" by simp
    then have no: "\<forall>y\<in>set xs. key y \<noteq> key r" by (simp add: filter_empty_conv)
    with Cons.prems(1) have "r = x" by auto
    moreover from no True have "key x \<notin> set (map key xs)" by auto
    ultimately show ?thesis by simp
  next
    case False
    with Cons.prems have "r \<in> set xs" "length (filter (\<lambda>y. key y = key r) xs) = 1" by auto
    then have "r \<in> set (drop_duplicates_last key xs)" by (rule Cons.IH)
    then show ?thesis by simp
  qed
qed

text \<open>
  Claim C3. For an upload that \<open>load_data\<close> accepts, the Date column is parsed cell by
  cell and the rows are deduplicated on (Date, Symbol) keeping the last occurrence: the
  frame returned holds the rows of the parsed upload that no later row repeats, in their
  order, so it has at most one row for each (Date, Symbol) value, it has a row for every
  value of the upload, and every row whose (Date, Symbol) value occurs once is kept.
\<close>

theorem load_data_deduplicates:
  assumes "load_data parse (Some csv) = Inr (df, shown)"
  shows "\<exists>parsed. to_datetime parse csv = Inr parsed
           \<and> list_all2 (parsed_from parse) csv parsed
           \<and> df = nths parsed (last_occurrences date_symbol parsed)
           \<and> distinct (map date_symbol df)
           \<and> set (map date_symbol df) = set (map date_symbol parsed)
           \<and> (\<forall>r\<in>set parsed.
                 length (filter (\<lambda>x. date_symbol x = date_symbol r) parsed) = 1 \<longrightarrow> r \<in> set df)"
proof -
  from assms obtain parsed where p: "to_datetime parse csv = Inr parsed"
    and df: "df = drop_duplicates_last date_symbol parsed"
    by (auto simp: load_data_def split: sum.splits)
  have a: "list_all2 (parsed_from parse) csv parsed" using p by (rule to_datetime_parsed)
  have b: "df = nths parsed (last_occurrences date_symbol parsed)"
    unfolding df by (rule drop_duplicates_last_nths)
  have c: "distinct (map date_symbol df)"
    unfolding df by (rule distinct_drop_duplicates_last)
  have d: "set (map date_symbol df) = set (map date_symbol parsed)"
    unfolding df by (rule set_drop_duplicates_last_keys)
  have e: "\<forall>r\<in>set parsed.
      length (filter (\<lambda>x. date_symbol x = date_symbol r) parsed) = 1 \<longrightarrow> r \<in> set df"
    unfolding df
  proof (intro ballI impI)
    fix r
    assume "r \<in> set parsed" "length (filter (\<lambda>x. date_symbol x = date_symbol r) parsed) = 1"
    then show "r \<in> set (drop_duplicates_last date_symbol parsed)" by (rule unique_key_kept)
  qed
  show ?thesis by (rule exI [of _ parsed]) (intro conjI p a b c d e)
qed

theorem load_data_deduplicates_witness:
  "load_data example_parse (Some example_csv) = Inr (example_data, [])
   \<and> (\<exists>parsed. to_datetime example_parse example_csv = Inr parsed
           \<and> list_all2 (parsed_from example_parse) example_csv parsed
           \<and> example_data = nths parsed (last_occurrences date_symbol parsed)
           \<and> distinct (map date_symbol example_data)
           \<and> set (map date_symbol example_data) = set (map date_symbol parsed)
           \<and> (\<forall>r\<in>set parsed.
                 length (filter (\<lambda>x. date_symbol x = date_symbol r) parsed) = 1
                 \<longrightarrow> r \<in> set example_data))"
proof -
  have h: "load_data example_parse (Some example_csv) = Inr (example_data, [])"
    by (simp add: load_data_def example_csv_def example_parse_def example_data_def
          date_symbol_def)
  from h load_data_deduplicates [OF h] show ?thesis by (rule conjI)
qed

subsection \<open>The duplicate warning\<close>

text \<open>
  Claim C9. Whatever was uploaded, the frame that \<open>load_data\<close> returns has no repeated
  (Date, Symbol) pair, so the test in front of the correlation matrix is false and the
  warning is not shown.
\<close>

theorem duplicate_warning_unreachable:
  assumes "load_data parse uploaded_file = Inr (data, shown)"
  shows "\<not> list_ex (\<lambda>b. b) (duplicated date_symbol data) \<and> duplicate_warning data = []"
proof -
  have "\<not> list_ex (\<lambda>b. b) (duplicated date_symbol data)"
  proof (cases uploaded_file)
    case None
    with assms have "data = []" by (simp add: load_data_def)
    then show ?thesis by (simp add: duplicated_def)
  next
    case (Some csv)
    with assms obtain parsed where "data = drop_duplicates_last date_symbol parsed"
      by (auto simp: load_data_def split: sum.splits)
    then show ?thesis by (simp only: duplicated_drop_duplicates_last not_False_eq_True)
  qed
  then show ?thesis by (simp add: duplicate_warning_def)
qed

theorem duplicate_warning_unreachable_witness:
  "load_data example_parse (Some example_csv) = Inr (example_data, [])
   \<and> \<not> list_ex (\<lambda>b. b) (duplicated date_symbol example_data)
   \<and> duplicate_warning example_data = []"
proof -
  have h: "load_data example_parse (Some example_csv) = Inr (example_data, [])"
    by (simp add: load_data_def example_csv_def example_parse_def example_data_def
          date_symbol_def)
  from h duplicate_warning_unreachable [OF h] show ?thesis by (rule conjI)
qed

subsection \<open>The slice behind the line charts\<close>


lemma and_mask_map: "and_mask (map P xs) (map Q xs) = map (\<lambda>x. P x \<and> Q x) xs"
  unfolding and_mask_def by (induction xs) auto












subsection \<open>Daily and cumulative return\<close>






lemma assign_Close:
  "length s = length df \<Longrightarrow> map Close (assign name s df) = map Close df"
  unfolding assign_def
  by (induction df arbitrary: s) (auto simp: length_Suc_conv)



subsection \<open>Top gainers and losers\<close>
















end
